theory Spec2Isabelle
  imports Main "HOL-Library.Word"
begin

section \<open>ATen Device: a device type and an optional device index\<close>

text \<open>
  The embedding follows \<^verbatim>\<open>aten/src/ATen/Device.h\<close>. A \<^verbatim>\<open>Device\<close> is a struct of a
  \<^verbatim>\<open>Type\<close> and an \<^verbatim>\<open>int32_t\<close> index. The index is a 32-bit word read as two's
  complement through \<open>sint\<close>. Every \<^verbatim>\<open>AT_CHECK\<close> and \<^verbatim>\<open>AT_ERROR\<close> of the source is
  an \<open>Inl\<close> branch of a result of type \<open>error + 'a\<close>.
\<close>

subsection \<open>Data model\<close>

text \<open>\<^verbatim>\<open>enum class Type { CPU, CUDA }\<close>\<close>

datatype Type = CPU | CUDA

text \<open>
  The private fields \<^verbatim>\<open>Type type_; int32_t index_ = -1;\<close>. A name may not end in an
  underscore here, so the fields are \<open>type_field\<close> and \<open>index_field\<close>.
\<close>

record Device =
  type_field :: Type
  index_field :: "32 word"

text \<open>
  Modelled from the spec: the \<^verbatim>\<open>Backend\<close> enumeration and its constants come from
  \<^verbatim>\<open>ATen/ScalarType.h\<close>, which is not among the sources. The header names four of its
  values (\<^verbatim>\<open>kCPU\<close>, \<^verbatim>\<open>kSparseCPU\<close>, \<^verbatim>\<open>kCUDA\<close>, \<^verbatim>\<open>kSparseCUDA\<close>); the
  specification calls it an external enumeration that maps many-to-one onto \<open>Type\<close> and
  has values with no device type. Those further values are \<open>OtherBackend n\<close>.
\<close>

datatype Backend = kCPU | kCUDA | kSparseCPU | kSparseCUDA | OtherBackend nat

text \<open>
  Modelled from the spec: \<^verbatim>\<open>AT_CHECK\<close> and \<^verbatim>\<open>AT_ERROR\<close> come from
  \<^verbatim>\<open>ATen/Error.h\<close>, which is not among the sources. The specification names two error
  kinds: \<open>InvalidArgument\<close>, raised by the checks of the header and carrying the message
  built from the macro's arguments, and \<open>ParseError\<close>, raised when a descriptor string
  does not match the grammar.
\<close>

datatype error = InvalidArgument string | ParseError

subsection \<open>Decimal rendering of integers\<close>

text \<open>
  The macros build their message by stream insertion, which renders an \<^verbatim>\<open>int32_t\<close>
  in base 10 with a leading minus sign for negative values.
\<close>

definition digit_char :: "nat \<Rightarrow> char" where
  "digit_char d = char_of (48 + d)"

fun show_nat :: "nat \<Rightarrow> string" where
  "show_nat n = (if n < 10 then [digit_char n] else show_nat (n div 10) @ [digit_char (n mod 10)])"

declare show_nat.simps [simp del]

definition show_int :: "int \<Rightarrow> string" where
  "show_int i = (if i < 0 then CHR ''-'' # show_nat (nat (- i)) else show_nat (nat i))"

subsection \<open>Accessors\<close>

definition type :: "Device \<Rightarrow> Type" where
  "type this = type_field this"

definition index :: "Device \<Rightarrow> 32 word" where
  "index this = index_field this"

definition has_index :: "Device \<Rightarrow> bool" where
  "has_index this = (index_field this \<noteq> - 1)"

definition is_cuda :: "Device \<Rightarrow> bool" where
  "is_cuda this = (type_field this = CUDA)"

definition is_cpu :: "Device \<Rightarrow> bool" where
  "is_cpu this = (type_field this = CPU)"

subsection \<open>Construction\<close>

text \<open>
  \<^verbatim>\<open>static Type backend_to_type(Backend backend)\<close>. \<^verbatim>\<open>toString(Backend)\<close> is declared
  outside the header and is a parameter here.
\<close>

definition backend_to_type :: "(Backend \<Rightarrow> string) \<Rightarrow> Backend \<Rightarrow> error + Type" where
  "backend_to_type toString backend =
     (case backend of
        kCPU \<Rightarrow> Inr CPU
      | kSparseCPU \<Rightarrow> Inr CPU
      | kCUDA \<Rightarrow> Inr CUDA
      | kSparseCUDA \<Rightarrow> Inr CUDA
      | OtherBackend n \<Rightarrow>
          Inl (InvalidArgument
                (''Invalid backend '' @ toString backend @ '' for Device construction'')))"

text \<open>
  \<^verbatim>\<open>Device(Type type, int32_t index = -1)\<close>: the fields are initialised first, then the
  two checks run in the order of the source.
\<close>

definition Device_from_type :: "Type \<Rightarrow> 32 word \<Rightarrow> error + Device" where
  "Device_from_type type' index' =
     (let this = \<lparr>type_field = type', index_field = index'\<rparr> in
      if \<not> (index' = - 1 \<or> 0 \<le> sint index') then
        Inl (InvalidArgument
              (''Device index must be -1 or non-negative, got '' @ show_int (sint index')))
      else if \<not> (\<not> is_cpu this \<or> sint index' \<le> 0) then
        Inl (InvalidArgument
              (''CPU device index must be -1 or zero, got '' @ show_int (sint index')))
      else Inr this)"

text \<open>The same constructor with the index argument omitted: the default is \<open>-1\<close>.\<close>

definition Device_from_type_default :: "Type \<Rightarrow> error + Device" where
  "Device_from_type_default type' = Device_from_type type' (- 1)"

text \<open>
  \<^verbatim>\<open>Device(Backend backend, int32_t index = -1) : Device(backend_to_type(backend), index)\<close>.
  An error of \<open>backend_to_type\<close> leaves the constructor before the delegation.
\<close>

definition Device_from_backend :: "(Backend \<Rightarrow> string) \<Rightarrow> Backend \<Rightarrow> 32 word \<Rightarrow> error + Device" where
  "Device_from_backend toString backend index' =
     (case backend_to_type toString backend of
        Inl e \<Rightarrow> Inl e
      | Inr type' \<Rightarrow> Device_from_type type' index')"

definition Device_from_backend_default :: "(Backend \<Rightarrow> string) \<Rightarrow> Backend \<Rightarrow> error + Device" where
  "Device_from_backend_default toString backend = Device_from_backend toString backend (- 1)"

subsection \<open>Comparison and mutation\<close>

text \<open>\<^verbatim>\<open>operator==\<close> and \<^verbatim>\<open>operator!=\<close>\<close>

definition Device_eq :: "Device \<Rightarrow> Device \<Rightarrow> bool" where
  "Device_eq this other = (type_field this = type_field other \<and> index_field this = index_field other)"

definition Device_neq :: "Device \<Rightarrow> Device \<Rightarrow> bool" where
  "Device_neq this other = (\<not> Device_eq this other)"

text \<open>\<^verbatim>\<open>void set_index(int32_t index)\<close>: one assignment, no check.\<close>

definition set_index :: "Device \<Rightarrow> 32 word \<Rightarrow> Device" where
  "set_index this index' = this\<lparr>index_field := index'\<rparr>"

subsection \<open>Descriptor strings\<close>

text \<open>
  Modelled from the spec: \<^verbatim>\<open>operator<<\<close> for \<open>Type\<close> is declared in the header and
  defined elsewhere. The specification gives the canonical rendering of a device as
  \<^verbatim>\<open><type>:<index>\<close>, or \<^verbatim>\<open><type>\<close> alone when the index is unspecified, and has it
  read back by the descriptor-string constructor, so the type is written as the
  descriptor grammar reads it (\<^verbatim>\<open>cpu\<close>, \<^verbatim>\<open>cuda\<close>).
\<close>

definition Type_to_string :: "Type \<Rightarrow> string" where
  "Type_to_string t = (case t of CPU \<Rightarrow> ''cpu'' | CUDA \<Rightarrow> ''cuda'')"

text \<open>
  Modelled from the spec: the missing \<^verbatim>\<open>operator<<\<close> for \<open>Device\<close>, the canonical
  rendering: the type alone when the index is the sentinel, the type, a colon and the
  index in base 10 otherwise.
\<close>

definition Device_to_string :: "Device \<Rightarrow> string" where
  "Device_to_string device =
     (if has_index device
      then Type_to_string (type device) @ '':'' @ show_int (sint (index device))
      else Type_to_string (type device))"

text \<open>
  Modelled from the spec: the constructor \<^verbatim>\<open>Device(const std::string&)\<close> is declared in
  the header and defined elsewhere; the definitions below stand for it. The
  specification's grammar is a case-sensitive type literal \<^verbatim>\<open>cpu\<close> or \<^verbatim>\<open>cuda\<close>, then
  either the end of the string (the examples \<^verbatim>\<open>"cpu"\<close> of its sections 6 and 8) or the
  separator \<^verbatim>\<open>:\<close> followed by an optional index (\<^verbatim>\<open>type ":" [index]\<close> of its section
  4, and the schema \<^verbatim>\<open>(cpu|cuda):[<device-index>]\<close> of the header's comment), the index
  a base-10 non-negative integer.
\<close>

text \<open>
  Modelled from the spec: a character of a base-10 index token, part of the missing
  descriptor-string constructor.
\<close>

definition is_digit :: "char \<Rightarrow> bool" where
  "is_digit c = (48 \<le> (of_char c :: nat) \<and> (of_char c :: nat) \<le> 57)"

text \<open>
  Modelled from the spec: the value of a decimal digit, part of the missing
  descriptor-string constructor.
\<close>

definition digit_value :: "char \<Rightarrow> nat" where
  "digit_value c = of_char c - 48"

text \<open>
  Modelled from the spec: reading a base-10 non-negative integer, part of the missing
  descriptor-string constructor. \<open>None\<close> when a character is not a decimal digit, so a
  sign is not accepted.
\<close>

fun parse_digits :: "nat \<Rightarrow> string \<Rightarrow> nat option" where
  "parse_digits acc [] = Some acc"
| "parse_digits acc (c # cs) =
     (if is_digit c then parse_digits (acc * 10 + digit_value c) cs else None)"

text \<open>
  Modelled from the spec: recognising the type literal at the start of the descriptor,
  part of the missing descriptor-string constructor. The result is the type and the rest
  of the string, or \<open>None\<close> when the type token is not recognised.
\<close>

definition parse_type :: "string \<Rightarrow> (Type \<times> string) option" where
  "parse_type device_string =
     (if take 3 device_string = ''cpu'' then Some (CPU, drop 3 device_string)
      else if take 4 device_string = ''cuda'' then Some (CUDA, drop 4 device_string)
      else None)"

text \<open>
  Modelled from the spec: reading the optional index after the separator, part of the
  missing descriptor-string constructor. An absent index is the sentinel \<open>-1\<close>. It is a
  \<open>ParseError\<close> when the token is present but is not a run of decimal digits whose value
  fits the \<^verbatim>\<open>int32_t\<close> index field.
\<close>

definition parse_index :: "string \<Rightarrow> error + 32 word" where
  "parse_index index_string =
     (if index_string = [] then Inr (- 1)
      else case parse_digits 0 index_string of
             None \<Rightarrow> Inl ParseError
           | Some n \<Rightarrow> if n \<le> 2147483647 then Inr (of_nat n) else Inl ParseError)"

text \<open>
  Modelled from the spec: the missing descriptor-string constructor
  \<^verbatim>\<open>Device(const std::string&)\<close>. It is a \<open>ParseError\<close> when the type literal is not
  recognised, when something other than the separator follows it, and when the index
  token is not valid. On success the result is that of the type and index constructor,
  with index \<open>-1\<close> when none is given, so the index checks of that constructor apply.
\<close>

definition Device_from_string :: "string \<Rightarrow> error + Device" where
  "Device_from_string device_string =
     (case parse_type device_string of
        None \<Rightarrow> Inl ParseError
      | Some (type', rest) \<Rightarrow>
          (case rest of
             [] \<Rightarrow> Device_from_type type' (- 1)
           | c # index_string \<Rightarrow>
               if c \<noteq> CHR '':'' then Inl ParseError
               else (case parse_index index_string of
                       Inl e \<Rightarrow> Inl e
                     | Inr index' \<Rightarrow> Device_from_type type' index')))"

section \<open>Properties\<close>

subsection \<open>Auxiliary facts\<close>

lemma Device_from_type_Inr:
  assumes "Device_from_type t i = Inr d"
  shows "d = \<lparr>type_field = t, index_field = i\<rparr>"
    and "i = - 1 \<or> 0 \<le> sint i"
    and "t = CPU \<Longrightarrow> sint i \<le> 0"
  using assms by (auto simp: Device_from_type_def Let_def is_cpu_def split: if_splits)

lemma Device_from_type_Inl:
  "Device_from_type t i = Inl e \<Longrightarrow> \<exists>m. e = InvalidArgument m"
  by (auto simp: Device_from_type_def Let_def split: if_splits)

lemma Device_from_type_succeeds:
  assumes "i = - 1 \<or> 0 \<le> sint i" and "t = CPU \<longrightarrow> sint i \<le> 0"
  shows "Device_from_type t i = Inr \<lparr>type_field = t, index_field = i\<rparr>"
  using assms by (auto simp: Device_from_type_def Let_def is_cpu_def)

lemma sint_eq_minus_one_iff: "sint (i :: 32 word) = - 1 \<longleftrightarrow> i = - 1"
proof
  assume "sint i = - 1"
  then have "sint i = sint (- 1 :: 32 word)" by simp
  then show "i = - 1" by (rule signed_word_eqI)
qed simp

lemma Device_eq_iff: "Device_eq a b \<longleftrightarrow> a = b"
  by (cases a, cases b) (simp add: Device_eq_def)

lemma parse_digits_snoc:
  "parse_digits acc (xs @ [c]) =
     (case parse_digits acc xs of
        None \<Rightarrow> None
      | Some v \<Rightarrow> if is_digit c then Some (v * 10 + digit_value c) else None)"
  by (induction xs arbitrary: acc) auto

lemma digit_char_is_digit: "d < 10 \<Longrightarrow> is_digit (digit_char d)"
  by (simp add: is_digit_def digit_char_def)

lemma digit_value_digit_char: "d < 10 \<Longrightarrow> digit_value (digit_char d) = d"
  by (simp add: digit_value_def digit_char_def)

lemma parse_digits_show_nat: "parse_digits 0 (show_nat n) = Some n"
proof (induction n rule: show_nat.induct)
  case (1 n)
  show ?case
  proof (cases "n < 10")
    case True
    then show ?thesis
      by (subst show_nat.simps) (simp add: digit_char_is_digit digit_value_digit_char)
  next
    case False
    with 1 have "parse_digits 0 (show_nat (n div 10)) = Some (n div 10)"
      by simp
    with False show ?thesis
      by (subst show_nat.simps)
        (simp add: parse_digits_snoc digit_char_is_digit digit_value_digit_char)
  qed
qed

lemma show_nat_not_Nil: "show_nat n \<noteq> []"
  by (subst show_nat.simps) simp

lemma parse_index_show_nat:
  "n \<le> 2147483647 \<Longrightarrow> parse_index (show_nat n) = Inr (of_nat n)"
  by (simp add: parse_index_def show_nat_not_Nil parse_digits_show_nat)

lemma Device_from_string_Inr:
  assumes "Device_from_string s = Inr d"
  shows "\<exists>t i. Device_from_type t i = Inr d"
  using assms
  by (auto simp: Device_from_string_def split: option.splits list.splits if_splits sum.splits)
    blast+

lemma parse_type_Type_to_string:
  "parse_type (Type_to_string t @ rest) = Some (t, rest)"
  by (cases t) (simp_all add: parse_type_def Type_to_string_def)

lemma nonneg_index_of_nat:
  fixes i :: "32 word"
  assumes "0 \<le> sint i"
  shows "nat (sint i) \<le> 2147483647" and "of_nat (nat (sint i)) = i"
proof -
  have "sint i < 2 ^ (LENGTH(32) - 1)" by (rule sint_lt)
  then show "nat (sint i) \<le> 2147483647" by simp
  show "of_nat (nat (sint i)) = i" using assms by simp
qed

lemma Device_round_trip_constructed:
  assumes "Device_from_type t i = Inr d"
  shows "Device_from_string (Device_to_string d) = Inr d"
proof (cases "i = - 1")
  case True
  have d: "d = \<lparr>type_field = t, index_field = i\<rparr>"
    by (rule Device_from_type_Inr(1) [OF assms])
  with True have "Device_to_string d = Type_to_string t @ []"
    by (simp add: Device_to_string_def has_index_def type_def)
  then have "Device_from_string (Device_to_string d) = Device_from_type t (- 1)"
    by (simp only: Device_from_string_def parse_type_Type_to_string) simp
  with True assms show ?thesis by simp
next
  case False
  with Device_from_type_Inr(2) [OF assms] have nonneg: "0 \<le> sint i" by simp
  let ?n = "nat (sint i)"
  have d: "d = \<lparr>type_field = t, index_field = i\<rparr>"
    by (rule Device_from_type_Inr(1) [OF assms])
  with False nonneg
  have "Device_to_string d = Type_to_string t @ (CHR '':'' # show_nat ?n)"
    by (simp add: Device_to_string_def has_index_def type_def index_def show_int_def)
  then have "Device_from_string (Device_to_string d) =
      (case parse_index (show_nat ?n) of Inl e \<Rightarrow> Inl e | Inr i' \<Rightarrow> Device_from_type t i')"
    by (simp only: Device_from_string_def parse_type_Type_to_string) simp
  also have "\<dots> = Device_from_type t i"
    by (simp add: parse_index_show_nat nonneg_index_of_nat [OF nonneg])
  finally show ?thesis using assms by simp
qed

lemma show_int_2: "show_int 2 = ''2''"
  by code_simp

lemmas parse_simps =
  Device_from_string_def parse_type_def parse_index_def is_digit_def digit_value_def

subsection \<open>The type and index constructor\<close>

text \<open>
  C1. The constructor from a type and an index fails with an \<open>InvalidArgument\<close>
  condition if and only if the index is below \<open>-1\<close>, or the type is CPU and the index is
  at least 1. In every other case it succeeds with a device of that type and index, and
  it never fails with another kind of error.
\<close>

theorem Device_from_type_fails_iff:
  "((\<exists>m. Device_from_type t i = Inl (InvalidArgument m)) \<longleftrightarrow>
      (sint i < - 1 \<or> (t = CPU \<and> 1 \<le> sint i))) \<and>
   (\<not> (sint i < - 1 \<or> (t = CPU \<and> 1 \<le> sint i)) \<longrightarrow>
      Device_from_type t i = Inr \<lparr>type_field = t, index_field = i\<rparr>) \<and>
   (\<forall>e. Device_from_type t i = Inl e \<longrightarrow> (\<exists>m. e = InvalidArgument m))"
proof (intro conjI)
  have m1: "i = - 1 \<or> 0 \<le> sint i \<longleftrightarrow> \<not> sint i < - 1"
    using sint_eq_minus_one_iff [of i] by auto
  show "(\<exists>m. Device_from_type t i = Inl (InvalidArgument m)) \<longleftrightarrow>
      (sint i < - 1 \<or> (t = CPU \<and> 1 \<le> sint i))"
    using m1 by (auto simp: Device_from_type_def Let_def is_cpu_def)
  show "\<not> (sint i < - 1 \<or> (t = CPU \<and> 1 \<le> sint i)) \<longrightarrow>
      Device_from_type t i = Inr \<lparr>type_field = t, index_field = i\<rparr>"
    using m1 by (auto intro!: Device_from_type_succeeds)
  show "\<forall>e. Device_from_type t i = Inl e \<longrightarrow> (\<exists>m. e = InvalidArgument m)"
    by (blast dest: Device_from_type_Inl)
qed

theorem Device_from_type_fails_iff_witness:
  "(\<exists>m. Device_from_type CPU 1 = Inl (InvalidArgument m)) \<and>
   (\<exists>m. Device_from_type CUDA (- 2) = Inl (InvalidArgument m)) \<and>
   Device_from_type CPU 0 = Inr \<lparr>type_field = CPU, index_field = 0\<rparr> \<and>
   Device_from_type CUDA 1 = Inr \<lparr>type_field = CUDA, index_field = 1\<rparr>"
  using Device_from_type_fails_iff [of CPU 1] Device_from_type_fails_iff [of CUDA "- 2"]
    Device_from_type_fails_iff [of CPU 0] Device_from_type_fails_iff [of CUDA 1]
  by simp

text \<open>
  C5. For every type and index that satisfy the invariants (the index is \<open>-1\<close> or
  non-negative, and for CPU it is \<open>-1\<close> or 0), construction succeeds and the accessors
  \<open>type\<close> and \<open>index\<close> return the type and index supplied. With the index argument
  omitted the stored index is \<open>-1\<close>.
\<close>

theorem Device_from_type_valid_accessors:
  assumes "sint i = - 1 \<or> 0 \<le> sint i"
    and "t = CPU \<longrightarrow> sint i = - 1 \<or> sint i = 0"
  shows "(\<exists>d. Device_from_type t i = Inr d \<and> type d = t \<and> index d = i) \<and>
         (\<exists>d. Device_from_type_default t = Inr d \<and> type d = t \<and> index d = - 1)"
proof -
  from assms have "i = - 1 \<or> 0 \<le> sint i" and "t = CPU \<longrightarrow> sint i \<le> 0"
    by (auto simp: sint_eq_minus_one_iff)
  then have "Device_from_type t i = Inr \<lparr>type_field = t, index_field = i\<rparr>"
    by (rule Device_from_type_succeeds)
  moreover have "Device_from_type_default t = Inr \<lparr>type_field = t, index_field = - 1\<rparr>"
    unfolding Device_from_type_default_def by (rule Device_from_type_succeeds) simp_all
  ultimately show ?thesis by (simp add: type_def index_def)
qed

theorem Device_from_type_valid_accessors_witness:
  "(sint (0 :: 32 word) = - 1 \<or> 0 \<le> sint (0 :: 32 word)) \<and>
   (sint (0 :: 32 word) = - 1 \<or> sint (0 :: 32 word) = 0) \<and>
   (\<exists>d. Device_from_type CPU 0 = Inr d \<and> type d = CPU \<and> index d = 0) \<and>
   (\<exists>d. Device_from_type_default CPU = Inr d \<and> type d = CPU \<and> index d = - 1)"
proof -
  have h1: "sint (0 :: 32 word) = - 1 \<or> 0 \<le> sint (0 :: 32 word)" by simp
  have h2: "CPU = CPU \<longrightarrow> sint (0 :: 32 word) = - 1 \<or> sint (0 :: 32 word) = 0" by simp
  from Device_from_type_valid_accessors [OF h1 h2] h1 h2 show ?thesis by blast
qed

subsection \<open>The backend constructor\<close>

text \<open>
  C4. \<open>backend_to_type\<close> sends the dense and the sparse CPU backend to \<open>CPU\<close>, the
  dense and the sparse CUDA backend to \<open>CUDA\<close>, and fails on every other backend with
  an \<open>InvalidArgument\<close> condition whose message holds the name of that backend, as
  \<open>toString\<close> gives it.
\<close>

theorem backend_to_type_mapping:
  "backend_to_type toString kCPU = Inr CPU \<and>
   backend_to_type toString kSparseCPU = Inr CPU \<and>
   backend_to_type toString kCUDA = Inr CUDA \<and>
   backend_to_type toString kSparseCUDA = Inr CUDA \<and>
   (b \<notin> {kCPU, kSparseCPU, kCUDA, kSparseCUDA} \<longrightarrow>
      backend_to_type toString b =
        Inl (InvalidArgument
              (''Invalid backend '' @ toString b @ '' for Device construction'')))"
  by (cases b) (simp_all add: backend_to_type_def)

theorem backend_to_type_mapping_witness:
  "OtherBackend 0 \<notin> {kCPU, kSparseCPU, kCUDA, kSparseCUDA} \<and>
   backend_to_type (\<lambda>b. ''Undefined'') (OtherBackend 0) =
     Inl (InvalidArgument ''Invalid backend Undefined for Device construction'') \<and>
   backend_to_type (\<lambda>b. ''Undefined'') kSparseCPU = Inr CPU"
  using backend_to_type_mapping [of "\<lambda>b. ''Undefined''" "OtherBackend 0"]
  by simp

text \<open>
  C7. The constructor from a backend and an index behaves as the constructor from a type
  and an index applied to \<open>backend_to_type\<close> of the backend: when the backend maps to a
  type, the result, success or \<open>InvalidArgument\<close> failure, is that of the type and
  index constructor at the mapped type; when it does not, the error of the mapping is the
  result. The same holds with the index omitted.
\<close>

theorem Device_from_backend_delegates:
  "(backend_to_type toString b = Inr t \<longrightarrow>
      Device_from_backend toString b i = Device_from_type t i \<and>
      Device_from_backend_default toString b = Device_from_type_default t) \<and>
   (backend_to_type toString b = Inl e \<longrightarrow>
      Device_from_backend toString b i = Inl e \<and>
      Device_from_backend_default toString b = Inl e) \<and>
   Device_from_backend toString kCPU i = Device_from_type CPU i \<and>
   Device_from_backend toString kSparseCPU i = Device_from_type CPU i \<and>
   Device_from_backend toString kCUDA i = Device_from_type CUDA i \<and>
   Device_from_backend toString kSparseCUDA i = Device_from_type CUDA i"
  by (simp add: Device_from_backend_def Device_from_backend_default_def
      Device_from_type_default_def backend_to_type_def)

theorem Device_from_backend_delegates_witness:
  "backend_to_type (\<lambda>b. ''SparseCPU'') kSparseCPU = Inr CPU \<and>
   Device_from_backend (\<lambda>b. ''SparseCPU'') kSparseCPU 2 = Device_from_type CPU 2 \<and>
   (\<exists>m. Device_from_backend (\<lambda>b. ''SparseCPU'') kSparseCPU 2 = Inl (InvalidArgument m)) \<and>
   Device_from_backend (\<lambda>b. ''SparseCPU'') kSparseCPU 0 =
     Inr \<lparr>type_field = CPU, index_field = 0\<rparr>"
proof -
  have m: "backend_to_type (\<lambda>b. ''SparseCPU'') kSparseCPU = Inr CPU"
    by (simp add: backend_to_type_def)
  have f: "\<exists>m. Device_from_type CPU 2 = Inl (InvalidArgument m)"
    by (simp add: Device_from_type_def is_cpu_def)
  have s: "Device_from_type CPU 0 = Inr \<lparr>type_field = CPU, index_field = 0\<rparr>"
    by (simp add: Device_from_type_def is_cpu_def)
  from Device_from_backend_delegates [of "\<lambda>b. ''SparseCPU''" kSparseCPU CPU 2] m
  have "Device_from_backend (\<lambda>b. ''SparseCPU'') kSparseCPU 2 = Device_from_type CPU 2"
    by blast
  moreover
  from Device_from_backend_delegates [of "\<lambda>b. ''SparseCPU''" kSparseCPU CPU 0] m
  have "Device_from_backend (\<lambda>b. ''SparseCPU'') kSparseCPU 0 = Device_from_type CPU 0"
    by blast
  ultimately show ?thesis using m f s by simp
qed

subsection \<open>Comparison, accessors and mutation\<close>

text \<open>
  C2. Two devices are equal under \<^verbatim>\<open>operator==\<close> if and only if their types are equal
  and their indices are equal, that is, if and only if they are the same value. Nothing
  is normalised: the CPU device with index \<open>-1\<close> and the CPU device with index 0 are both
  constructible and are not equal.
\<close>

theorem Device_eq_iff_fields:
  "(Device_eq d1 d2 \<longleftrightarrow> type d1 = type d2 \<and> index d1 = index d2) \<and>
   (Device_eq d1 d2 \<longleftrightarrow> d1 = d2) \<and>
   (\<exists>a b. Device_from_type CPU (- 1) = Inr a \<and> Device_from_type CPU 0 = Inr b \<and>
      \<not> Device_eq a b)"
proof (intro conjI)
  show "Device_eq d1 d2 \<longleftrightarrow> type d1 = type d2 \<and> index d1 = index d2"
    by (simp add: Device_eq_def type_def index_def)
  show "Device_eq d1 d2 \<longleftrightarrow> d1 = d2"
    by (rule Device_eq_iff)
  have "Device_from_type CPU (- 1) = Inr \<lparr>type_field = CPU, index_field = - 1\<rparr>"
    and "Device_from_type CPU 0 = Inr \<lparr>type_field = CPU, index_field = 0\<rparr>"
    by (simp_all add: Device_from_type_def is_cpu_def)
  moreover have "\<not> Device_eq \<lparr>type_field = CPU, index_field = - 1\<rparr>
      \<lparr>type_field = CPU, index_field = 0\<rparr>"
    by (simp add: Device_eq_def)
  ultimately show "\<exists>a b. Device_from_type CPU (- 1) = Inr a \<and>
      Device_from_type CPU 0 = Inr b \<and> \<not> Device_eq a b"
    by blast
qed

theorem Device_eq_iff_fields_witness:
  "Device_eq \<lparr>type_field = CUDA, index_field = 1\<rparr> \<lparr>type_field = CUDA, index_field = 1\<rparr> \<and>
   \<not> Device_eq \<lparr>type_field = CUDA, index_field = 1\<rparr> \<lparr>type_field = CPU, index_field = 1\<rparr> \<and>
   \<not> Device_eq \<lparr>type_field = CPU, index_field = - 1\<rparr> \<lparr>type_field = CPU, index_field = 0\<rparr>"
  using
    Device_eq_iff_fields [of "\<lparr>type_field = CUDA, index_field = 1\<rparr>"
      "\<lparr>type_field = CUDA, index_field = 1\<rparr>"]
    Device_eq_iff_fields [of "\<lparr>type_field = CUDA, index_field = 1\<rparr>"
      "\<lparr>type_field = CPU, index_field = 1\<rparr>"]
    Device_eq_iff_fields [of "\<lparr>type_field = CPU, index_field = - 1\<rparr>"
      "\<lparr>type_field = CPU, index_field = 0\<rparr>"]
  by (simp add: type_def index_def)

text \<open>
  C10. \<^verbatim>\<open>operator!=\<close> is the negation of \<^verbatim>\<open>operator==\<close>: for every pair of devices
  exactly one of the two holds.
\<close>

theorem Device_neq_is_negation:
  "(Device_neq d1 d2 \<longleftrightarrow> \<not> Device_eq d1 d2) \<and>
   (Device_eq d1 d2 \<or> Device_neq d1 d2) \<and>
   \<not> (Device_eq d1 d2 \<and> Device_neq d1 d2)"
  by (simp add: Device_neq_def)

theorem Device_neq_is_negation_witness:
  "Device_neq \<lparr>type_field = CPU, index_field = - 1\<rparr> \<lparr>type_field = CPU, index_field = 0\<rparr> \<and>
   \<not> Device_neq \<lparr>type_field = CUDA, index_field = 3\<rparr> \<lparr>type_field = CUDA, index_field = 3\<rparr>"
proof -
  have "\<not> Device_eq \<lparr>type_field = CPU, index_field = - 1\<rparr>
      \<lparr>type_field = CPU, index_field = 0\<rparr>"
    and "Device_eq \<lparr>type_field = CUDA, index_field = 3\<rparr>
      \<lparr>type_field = CUDA, index_field = 3\<rparr>"
    by (simp_all add: Device_eq_def)
  with Device_neq_is_negation [of "\<lparr>type_field = CPU, index_field = - 1\<rparr>"
      "\<lparr>type_field = CPU, index_field = 0\<rparr>"]
    Device_neq_is_negation [of "\<lparr>type_field = CUDA, index_field = 3\<rparr>"
      "\<lparr>type_field = CUDA, index_field = 3\<rparr>"]
  show ?thesis by blast
qed

text \<open>
  C8. \<open>has_index\<close> is true if and only if the stored index is not \<open>-1\<close>. A device
  constructed with the index omitted has no index; a device constructed with an index of
  0 or more has one.
\<close>

theorem has_index_iff_not_sentinel:
  "(has_index d \<longleftrightarrow> index d \<noteq> - 1) \<and>
   (Device_from_type_default t = Inr d0 \<longrightarrow> \<not> has_index d0) \<and>
   (0 \<le> sint i \<longrightarrow> Device_from_type t i = Inr d1 \<longrightarrow> has_index d1)"
proof (intro conjI impI)
  show "has_index d \<longleftrightarrow> index d \<noteq> - 1"
    by (simp add: has_index_def index_def)
next
  assume "Device_from_type_default t = Inr d0"
  then have "d0 = \<lparr>type_field = t, index_field = - 1\<rparr>"
    unfolding Device_from_type_default_def by (rule Device_from_type_Inr(1))
  then show "\<not> has_index d0" by (simp add: has_index_def)
next
  assume nonneg: "0 \<le> sint i" and "Device_from_type t i = Inr d1"
  then have "d1 = \<lparr>type_field = t, index_field = i\<rparr>"
    by (simp add: Device_from_type_Inr(1))
  moreover from nonneg have "i \<noteq> - 1" by auto
  ultimately show "has_index d1" by (simp add: has_index_def)
qed

theorem has_index_iff_not_sentinel_witness:
  "Device_from_type_default CUDA = Inr \<lparr>type_field = CUDA, index_field = - 1\<rparr> \<and>
   \<not> has_index \<lparr>type_field = CUDA, index_field = - 1\<rparr> \<and>
   0 \<le> sint (0 :: 32 word) \<and>
   Device_from_type CUDA 0 = Inr \<lparr>type_field = CUDA, index_field = 0\<rparr> \<and>
   has_index \<lparr>type_field = CUDA, index_field = 0\<rparr>"
proof -
  have a: "Device_from_type_default CUDA = Inr \<lparr>type_field = CUDA, index_field = - 1\<rparr>"
    by (simp add: Device_from_type_default_def Device_from_type_def is_cpu_def)
  have b: "Device_from_type CUDA 0 = Inr \<lparr>type_field = CUDA, index_field = 0\<rparr>"
    by (simp add: Device_from_type_def is_cpu_def)
  have c: "0 \<le> sint (0 :: 32 word)" by simp
  from has_index_iff_not_sentinel [of _ CUDA "\<lparr>type_field = CUDA, index_field = - 1\<rparr>" 0
      "\<lparr>type_field = CUDA, index_field = 0\<rparr>"] a b c
  show ?thesis by blast
qed

text \<open>
  C6. \<open>set_index\<close> has no failing branch: for every device and every 32-bit index it
  returns the device with that index stored and the type unchanged. No check is made, so
  the stored index may be one that the constructor rejects for that type.
\<close>

theorem set_index_stores_unchecked:
  "index (set_index d i) = i \<and> type (set_index d i) = type d \<and>
   set_index d i = \<lparr>type_field = type d, index_field = i\<rparr>"
  by (cases d) (simp add: set_index_def index_def type_def)

theorem set_index_stores_unchecked_witness:
  "Device_from_type CPU 0 = Inr \<lparr>type_field = CPU, index_field = 0\<rparr> \<and>
   index (set_index \<lparr>type_field = CPU, index_field = 0\<rparr> 5) = 5 \<and>
   type (set_index \<lparr>type_field = CPU, index_field = 0\<rparr> 5) = CPU \<and>
   (\<exists>m. Device_from_type CPU 5 = Inl (InvalidArgument m)) \<and>
   index (set_index \<lparr>type_field = CUDA, index_field = 1\<rparr> (- 3)) = - 3 \<and>
   type (set_index \<lparr>type_field = CUDA, index_field = 1\<rparr> (- 3)) = CUDA \<and>
   (\<exists>m. Device_from_type CUDA (- 3) = Inl (InvalidArgument m))"
proof -
  have "Device_from_type CPU 0 = Inr \<lparr>type_field = CPU, index_field = 0\<rparr>"
    and "\<exists>m. Device_from_type CPU 5 = Inl (InvalidArgument m)"
    and "\<exists>m. Device_from_type CUDA (- 3) = Inl (InvalidArgument m)"
    by (simp_all add: Device_from_type_def is_cpu_def)
  moreover have "type \<lparr>type_field = CPU, index_field = 0\<rparr> = CPU"
    and "type \<lparr>type_field = CUDA, index_field = 1\<rparr> = CUDA"
    by (simp_all add: type_def)
  ultimately show ?thesis
    using set_index_stores_unchecked [of "\<lparr>type_field = CPU, index_field = 0\<rparr>" 5]
      set_index_stores_unchecked [of "\<lparr>type_field = CUDA, index_field = 1\<rparr>" "- 3"]
    by (simp add: type_def index_def)
qed

subsection \<open>Descriptor strings\<close>

text \<open>
  C3. Every device that the descriptor-string constructor can produce is read back from
  its canonical rendering: constructing from \<open>Device_to_string d\<close> succeeds with a
  device equal to \<open>d\<close> under \<^verbatim>\<open>operator==\<close>.
\<close>

theorem Device_string_round_trip:
  assumes "Device_from_string s = Inr d"
  shows "\<exists>d'. Device_from_string (Device_to_string d) = Inr d' \<and> Device_eq d' d"
proof -
  from assms obtain t i where "Device_from_type t i = Inr d"
    using Device_from_string_Inr by blast
  then have "Device_from_string (Device_to_string d) = Inr d"
    by (rule Device_round_trip_constructed)
  then show ?thesis by (simp add: Device_eq_iff)
qed

theorem Device_string_round_trip_witness:
  "Device_from_string ''cuda:12'' = Inr \<lparr>type_field = CUDA, index_field = 12\<rparr> \<and>
   (\<exists>d'. Device_from_string (Device_to_string \<lparr>type_field = CUDA, index_field = 12\<rparr>) = Inr d' \<and>
      Device_eq d' \<lparr>type_field = CUDA, index_field = 12\<rparr>)"
proof -
  have h: "Device_from_string ''cuda:12'' = Inr \<lparr>type_field = CUDA, index_field = 12\<rparr>"
    by (simp add: parse_simps Device_from_type_def is_cpu_def)
  from h Device_string_round_trip [OF h] show ?thesis by blast
qed

text \<open>
  C9. The descriptor-string constructor on five inputs: \<^verbatim>\<open>"cuda:3"\<close> gives the CUDA
  device with index 3, \<^verbatim>\<open>"cpu"\<close> gives the CPU device with index \<open>-1\<close>,
  \<^verbatim>\<open>"gpu:0"\<close> is a \<open>ParseError\<close>, \<^verbatim>\<open>"cpu:2"\<close> is an \<open>InvalidArgument\<close> failure, and
  \<^verbatim>\<open>"cuda:-1"\<close> is a \<open>ParseError\<close>, since a sign is not part of an index token.
\<close>

theorem Device_from_string_examples:
  "Device_from_string ''cuda:3'' = Inr \<lparr>type_field = CUDA, index_field = 3\<rparr> \<and>
   Device_from_string ''cpu'' = Inr \<lparr>type_field = CPU, index_field = - 1\<rparr> \<and>
   Device_from_string ''gpu:0'' = Inl ParseError \<and>
   Device_from_string ''cpu:2'' =
     Inl (InvalidArgument ''CPU device index must be -1 or zero, got 2'') \<and>
   Device_from_string ''cuda:-1'' = Inl ParseError"
  by (simp add: parse_simps Device_from_type_def is_cpu_def show_int_2)

theorem Device_from_string_examples_witness:
  "(\<exists>d. Device_from_string ''cuda:3'' = Inr d \<and> is_cuda d \<and> index d = 3) \<and>
   (\<exists>d. Device_from_string ''cpu'' = Inr d \<and> is_cpu d \<and> \<not> has_index d) \<and>
   (\<exists>m. Device_from_string ''cpu:2'' = Inl (InvalidArgument m))"
  using Device_from_string_examples
  by (simp add: is_cuda_def is_cpu_def index_def has_index_def)

end
